theory Spec2Isabelle
  imports Complex_Main
begin

section \<open>The air-raid scene of main.py: data model\<close>

text \<open>
  The simulation of \<^verbatim>\<open>game()\<close> in main.py, one loop iteration (tick) at a time.
  Python floats are modelled as \<^typ>\<open>real\<close> (no rounding), Python ints as \<^typ>\<open>int\<close>.
  The local variables of \<^verbatim>\<open>game()\<close> that survive a loop iteration are the fields of
  the record \<open>game_state\<close>; the values read from the outside in one iteration
  (\<^verbatim>\<open>clock.tick\<close>, \<^verbatim>\<open>time.time\<close>, \<^verbatim>\<open>pygame.event.get\<close>) are the record \<open>tick_input\<close>.
  Field names of the dataclasses carry a prefix, since several of them share \<open>x\<close>, \<open>y\<close>, \<open>vy\<close>.
  What only the drawing reads (fire and searchlight phases, the flag, the fonts) is left out;
  the values these parts take from the random generators are taken all the same.
\<close>

subsection \<open>Configuration constants\<close>

definition MAX_PLANES :: nat where "MAX_PLANES = 9"
definition BOMB_RATE :: "real \<times> real" where "BOMB_RATE = (1.0, 2.0)"
definition GRAVITY :: real where "GRAVITY = 280.0"
definition MAX_BOMBS :: nat where "MAX_BOMBS = 30"
definition EXPLOSION_TIME :: real where "EXPLOSION_TIME = 0.60"
definition CITY_FRACTION :: real where "CITY_FRACTION = 0.30"
definition SHAKE_DURATION :: real where "SHAKE_DURATION = 0.30"
definition SHAKE_STRENGTH :: real where "SHAKE_STRENGTH = 9"
definition MAX_SMOKE :: nat where "MAX_SMOKE = 220"
definition MAX_FIRES :: nat where "MAX_FIRES = 18"
definition AA_SPAWN_RATE :: real where "AA_SPAWN_RATE = 1.2"
definition AA_BATTERIES :: int where "AA_BATTERIES = 3"
definition AA_MAX_SHOTS :: nat where "AA_MAX_SHOTS = 6"
definition AA_MIN_ALT_FRAC :: real where "AA_MIN_ALT_FRAC = 0.22"
definition AA_MAX_ALT_FRAC :: real where "AA_MAX_ALT_FRAC = 0.55"
definition AA_SMOKE_PUFFS :: "int \<times> int" where "AA_SMOKE_PUFFS = (7, 11)"
definition AA_PUFF_VY :: "real \<times> real" where "AA_PUFF_VY = (-36.0, -14.0)"
definition AA_PUFF_R0 :: "real \<times> real" where "AA_PUFF_R0 = (4.5, 8.0)"
definition AA_PUFF_DR :: "real \<times> real" where "AA_PUFF_DR = (14.0, 22.0)"
definition AA_PUFF_ALPHA0 :: "real \<times> real" where "AA_PUFF_ALPHA0 = (120.0, 160.0)"
definition AA_PUFF_DA :: "real \<times> real" where "AA_PUFF_DA = (130.0, 190.0)"
definition AA_PUFF_SPREAD :: real where "AA_PUFF_SPREAD = 18.0"

lemmas config_defs =
  MAX_PLANES_def BOMB_RATE_def GRAVITY_def MAX_BOMBS_def EXPLOSION_TIME_def CITY_FRACTION_def
  SHAKE_DURATION_def SHAKE_STRENGTH_def MAX_SMOKE_def MAX_FIRES_def AA_SPAWN_RATE_def
  AA_BATTERIES_def AA_MAX_SHOTS_def AA_MIN_ALT_FRAC_def AA_MAX_ALT_FRAC_def AA_SMOKE_PUFFS_def
  AA_PUFF_VY_def AA_PUFF_R0_def AA_PUFF_DR_def AA_PUFF_ALPHA0_def AA_PUFF_DA_def
  AA_PUFF_SPREAD_def

subsection \<open>Python's \<^verbatim>\<open>int()\<close> and the random module\<close>

text \<open>\<^verbatim>\<open>int(x)\<close> on a float truncates towards zero.\<close>

definition py_int :: "real \<Rightarrow> int" where
  "py_int v = (if 0 \<le> v then \<lfloor>v\<rfloor> else \<lceil>v\<rceil>)"

text \<open>
  The module-level generator \<^verbatim>\<open>random\<close> is an oracle: an arbitrary sequence \<open>src\<close> and
  the number \<open>pos\<close> of values taken so far. \<^verbatim>\<open>random.random()\<close> returns a float in
  \<open>[0, 1)\<close>, whatever the sequence holds (\<open>frac\<close> is the identity there);
  \<^verbatim>\<open>uniform(a, b)\<close> is \<^verbatim>\<open>a + (b-a) * random()\<close> as in the standard library;
  \<^verbatim>\<open>randint(a, b)\<close> and \<^verbatim>\<open>choice(seq)\<close> take one value below the size of their range.
\<close>

record rng =
  src :: "nat \<Rightarrow> real"
  pos :: nat

definition random_random :: "rng \<Rightarrow> real \<times> rng" where
  "random_random g = (frac (src g (pos g)), g\<lparr>pos := Suc (pos g)\<rparr>)"

definition uniform :: "real \<Rightarrow> real \<Rightarrow> rng \<Rightarrow> real \<times> rng" where
  "uniform a b g = (case random_random g of (u, g') \<Rightarrow> (a + (b - a) * u, g'))"

definition randbelow :: "int \<Rightarrow> rng \<Rightarrow> int \<times> rng" where
  "randbelow n g = (case random_random g of (u, g') \<Rightarrow> (\<lfloor>u * of_int n\<rfloor>, g'))"

definition randint :: "int \<Rightarrow> int \<Rightarrow> rng \<Rightarrow> int \<times> rng" where
  "randint a b g = (case randbelow (b - a + 1) g of (k, g') \<Rightarrow> (a + k, g'))"

definition choice :: "'a list \<Rightarrow> rng \<Rightarrow> 'a \<times> rng" where
  "choice xs g = (case randbelow (int (length xs)) g of (k, g') \<Rightarrow> (xs ! nat k, g'))"

subsection \<open>Entities\<close>

text \<open>A sprite is known to the simulation by \<^verbatim>\<open>get_width()\<close> and \<^verbatim>\<open>get_height()\<close> only.\<close>

type_synonym sprite = "int \<times> int"

definition get_width :: "sprite \<Rightarrow> real" where "get_width i = of_int (fst i)"
definition get_height :: "sprite \<Rightarrow> real" where "get_height i = of_int (snd i)"

record Bomb =
  b_x :: real
  b_y :: real
  b_vy :: real
  b_exploded :: bool
  b_start :: real
  b_hit_y :: real

record Plane =
  p_img :: sprite
  p_x :: real
  p_y :: real
  p_vx :: real
  p_next_bomb :: real
  p_original_facing :: string
  p_vy :: real
  p_angle :: real
  p_spin :: real
  p_on_fire :: bool
  p_dying :: bool
  p_invuln_until :: real

record Smoke =
  s_x :: real
  s_y :: real
  s_r :: real
  s_vy :: real
  s_a :: real
  s_tone :: int

record AAShot =
  shot_x :: real
  shot_y :: real
  shot_vx :: real
  shot_vy :: real
  shot_target_y :: real
  shot_alive :: bool

record AABurst =
  burst_x :: real
  burst_y :: real
  burst_start :: real
  burst_radius :: real

subsection \<open>Surfaces and rectangles\<close>

text \<open>
  Pixels are not modelled. A surface is known by how it was produced: the backdrop that
  \<^verbatim>\<open>prerender_background(sw, sh)\<close> draws (its own generators are seeded, so the picture is a
  function of the size), the card that \<^verbatim>\<open>build_logo_card(sw, sh)\<close> draws, and the result of
  blitting one surface onto another at a position. \<^verbatim>\<open>copy()\<close> and \<^verbatim>\<open>convert()\<close> keep
  the picture.
\<close>

datatype surface =
  Backdrop int int
| LogoCard int int
| Blit surface surface "int \<times> int"

text \<open>
  A \<^verbatim>\<open>pygame.Rect\<close>: integer left, top, width, height. Assigning \<^verbatim>\<open>center\<close> moves
  the rectangle so that \<^verbatim>\<open>left + width // 2\<close> and \<^verbatim>\<open>top + height // 2\<close> are the centre.
\<close>

record Rect =
  r_left :: int
  r_top :: int
  r_width :: int
  r_height :: int

definition rect_center :: "Rect \<Rightarrow> int \<times> int" where
  "rect_center r = (r_left r + r_width r div 2, r_top r + r_height r div 2)"

definition set_center :: "int \<times> int \<Rightarrow> Rect \<Rightarrow> Rect" where
  "set_center c r = r\<lparr>r_left := fst c - r_width r div 2, r_top := snd c - r_height r div 2\<rparr>"

definition set_centerx :: "int \<Rightarrow> Rect \<Rightarrow> Rect" where
  "set_centerx cx r = r\<lparr>r_left := cx - r_width r div 2\<rparr>"

definition topleft :: "Rect \<Rightarrow> int \<times> int" where
  "topleft r = (r_left r, r_top r)"

text \<open>
  \<^verbatim>\<open>build_logo_card\<close>: the card is \<^verbatim>\<open>min(int(sw*0.9), 820)\<close> wide and
  \<^verbatim>\<open>min(int(sh*0.28), 240)\<close> high; its rectangle starts at the origin and is centred
  horizontally.
\<close>

definition build_logo_card :: "int \<Rightarrow> int \<Rightarrow> surface \<times> Rect" where
  "build_logo_card w h =
     (let bw = min (py_int (of_int w * 0.9)) 820;
          bh = min (py_int (of_int h * 0.28)) 240;
          rect = \<lparr>r_left = 0, r_top = 0, r_width = bw, r_height = bh\<rparr>
      in (LogoCard w h, set_centerx (w div 2) rect))"

text \<open>
  Of \<^verbatim>\<open>prerender_background\<close> the loop uses the backdrop and \<^verbatim>\<open>y_base = sh - int(sh*CITY_FRACTION)\<close>.
\<close>

definition y_base :: "int \<Rightarrow> int" where
  "y_base h = h - py_int (of_int h * CITY_FRACTION)"

subsection \<open>Inputs of one loop iteration\<close>

datatype key = K_ESCAPE | K_q | K_f | K_other

text \<open>
  The events the loop reacts to. \<^verbatim>\<open>VIDEORESIZE\<close> carries the new width and height; its
  third component is the number of values that \<^verbatim>\<open>random.shuffle(damage_spots)\<close> takes from
  the module-level generator while \<^verbatim>\<open>prerender_background\<close> rebuilds the scenery (it depends on
  the damage spots, which the seeded generators of that function decide).
\<close>

datatype event = QUIT | KEYDOWN key | VIDEORESIZE int int nat | OTHER_EVENT

record tick_input =
  in_dt :: real
  in_now :: real
  in_events :: "event list"

subsection \<open>The state of the loop\<close>

record game_state =
  sw :: int
  sh :: int
  bg :: surface
  city_base_y :: int
  bg_with_logo :: "surface option"
  using_baked_logo :: bool
  lanes :: "real list"
  planes :: "Plane list"
  bombs :: "Bomb list"
  smokes :: "Smoke list"
  aa_bases :: "(int \<times> int) list"
  aa_next_fire :: "real list"
  aa_shots :: "AAShot list"
  aa_bursts :: "AABurst list"
  logo_card :: surface
  logo_rect :: Rect
  logo_center_y :: int
  logo_start_y :: int
  logo_show_time :: real
  logo_slide_dur :: real
  logo_anim_start :: "real option"
  logo_active :: bool
  logo_parked :: bool
  shake_until :: real
  shake_strength :: real
  shake_offset :: "int \<times> int"
  show_fps :: bool
  running :: bool
  rnd :: rng

section \<open>One loop iteration\<close>

subsection \<open>Planes (the loop \<^verbatim>\<open>for p in planes\<close>)\<close>

text \<open>A dying plane falls: gravity at 0.6, half the horizontal speed, spin.\<close>

definition fall_plane :: "real \<Rightarrow> Plane \<Rightarrow> Plane" where
  "fall_plane dt p =
     (let p1 = p\<lparr>p_vy := p_vy p + GRAVITY * dt * 0.6\<rparr>;
          p2 = p1\<lparr>p_y := p_y p1 + p_vy p1 * dt\<rparr>;
          p3 = p2\<lparr>p_x := p_x p2 + p_vx p2 * dt * 0.5\<rparr>
      in p3\<lparr>p_angle := p_angle p3 + p_spin p3 * dt\<rparr>)"

text \<open>The smoke particle a dying plane emits, its arguments drawn in the order written.\<close>

definition plane_smoke :: "Plane \<Rightarrow> rng \<Rightarrow> Smoke \<times> rng" where
  "plane_smoke p g0 =
     (case uniform (-8) 8 g0 of (ox, g1) \<Rightarrow>
      case uniform (-8) 8 g1 of (oy, g2) \<Rightarrow>
      case uniform 3.5 6.5 g2 of (r, g3) \<Rightarrow>
      case uniform (-24) (-8) g3 of (vy, g4) \<Rightarrow>
      case uniform 110 150 g4 of (a, g5) \<Rightarrow>
      case randint 60 90 g5 of (tone, g6) \<Rightarrow>
        (\<lparr>s_x = p_x p + get_width (p_img p) / 2 + ox,
          s_y = p_y p + get_height (p_img p) / 2 + oy,
          s_r = r, s_vy = vy, s_a = a, s_tone = tone\<rparr>, g6))"

text \<open>
  The reset of a plane that has fallen below the frame: every field of the death is cleared,
  a lane is chosen and the plane is put off-screen on the side its \<open>vx\<close> comes from.
\<close>

definition respawn_plane :: "int \<Rightarrow> real list \<Rightarrow> Plane \<Rightarrow> rng \<Rightarrow> Plane \<times> rng" where
  "respawn_plane w ls p g0 =
     (let dir_right = (p_vx p > 0);
          p1 = p\<lparr>p_on_fire := False, p_dying := False, p_vy := 0, p_angle := 0, p_spin := 0,
                 p_invuln_until := 0\<rparr>
      in case choice ls g0 of (lane, g1) \<Rightarrow>
         case uniform 40 260 g1 of (u, g2) \<Rightarrow>
           (p1\<lparr>p_y := lane,
               p_x := (if dir_right then - get_width (p_img p) - u else of_int w + u)\<rparr>, g2))"

definition move_plane ::
  "real \<Rightarrow> int \<Rightarrow> int \<Rightarrow> real list \<Rightarrow> Plane \<Rightarrow> Smoke list \<Rightarrow> rng \<Rightarrow> Plane \<times> Smoke list \<times> rng" where
  "move_plane dt w h ls p sm g0 =
     (if p_dying p then
        (let p1 = fall_plane dt p in
         case random_random g0 of (c, g1) \<Rightarrow>
         case (if c < 0.6 then (case plane_smoke p1 g1 of (k, g2) \<Rightarrow> (sm @ [k], g2))
               else (sm, g1)) of (sm', g3) \<Rightarrow>
           if p_y p1 > of_int h + 120
           then (case respawn_plane w ls p1 g3 of (p2, g4) \<Rightarrow> (p2, sm', g4))
           else (p1, sm', g3))
      else (p\<lparr>p_x := p_x p + p_vx p * dt\<rparr>, sm, g0))"

text \<open>
  Bomb release: only when the bomb is due, the plane is not dying and the list holds fewer
  than \<open>MAX_BOMBS\<close> bombs; otherwise nothing happens, and \<open>next_bomb\<close> is not redrawn.
\<close>

definition drop_bomb ::
  "real \<Rightarrow> int \<Rightarrow> Plane \<Rightarrow> Bomb list \<Rightarrow> rng \<Rightarrow> Plane \<times> Bomb list \<times> rng" where
  "drop_bomb now h p bs g0 =
     (if now \<ge> p_next_bomb p \<and> \<not> p_dying p \<and> length bs < MAX_BOMBS then
        (case uniform (fst BOMB_RATE) (snd BOMB_RATE) g0 of (u, g1) \<Rightarrow>
           (p\<lparr>p_next_bomb := now + u\<rparr>,
            bs @ [\<lparr>b_x = p_x p + get_width (p_img p) / 2,
                   b_y = p_y p + get_height (p_img p) * 0.85,
                   b_vy = 160, b_exploded = False, b_start = now, b_hit_y = of_int h - 2\<rparr>],
            g1))
      else (p, bs, g0))"

text \<open>Edge wrap of a plane that is not dying: the position is drawn before the lane.\<close>

definition wrap_plane :: "int \<Rightarrow> real list \<Rightarrow> Plane \<Rightarrow> rng \<Rightarrow> Plane \<times> rng" where
  "wrap_plane w ls p g0 =
     (if \<not> p_dying p then
        (if p_vx p > 0 \<and> p_x p > of_int w + 60 then
           (case uniform 40 260 g0 of (u, g1) \<Rightarrow>
            case choice ls g1 of (lane, g2) \<Rightarrow>
              (p\<lparr>p_x := - get_width (p_img p) - u, p_y := lane\<rparr>, g2))
         else if p_vx p < 0 \<and> p_x p + get_width (p_img p) < - 60 then
           (case uniform 40 260 g0 of (u, g1) \<Rightarrow>
            case choice ls g1 of (lane, g2) \<Rightarrow>
              (p\<lparr>p_x := of_int w + u, p_y := lane\<rparr>, g2))
         else (p, g0))
      else (p, g0))"

definition plane_step ::
  "real \<Rightarrow> real \<Rightarrow> int \<Rightarrow> int \<Rightarrow> real list \<Rightarrow> Plane \<Rightarrow> Bomb list \<Rightarrow> Smoke list \<Rightarrow> rng
     \<Rightarrow> Plane \<times> Bomb list \<times> Smoke list \<times> rng" where
  "plane_step dt now w h ls p bs sm g0 =
     (case move_plane dt w h ls p sm g0 of (p1, sm1, g1) \<Rightarrow>
      case drop_bomb now h p1 bs g1 of (p2, bs1, g2) \<Rightarrow>
      case wrap_plane w ls p2 g2 of (p3, g3) \<Rightarrow> (p3, bs1, sm1, g3))"

fun planes_loop ::
  "real \<Rightarrow> real \<Rightarrow> int \<Rightarrow> int \<Rightarrow> real list \<Rightarrow> Plane list \<Rightarrow> Bomb list \<Rightarrow> Smoke list \<Rightarrow> rng
     \<Rightarrow> Plane list \<times> Bomb list \<times> Smoke list \<times> rng" where
  "planes_loop dt now w h ls [] bs sm g = ([], bs, sm, g)"
| "planes_loop dt now w h ls (p # ps) bs sm g =
     (case plane_step dt now w h ls p bs sm g of (p', bs1, sm1, g1) \<Rightarrow>
      case planes_loop dt now w h ls ps bs1 sm1 g1 of (ps', bs2, sm2, g2) \<Rightarrow>
        (p' # ps', bs2, sm2, g2))"

definition update_planes :: "real \<Rightarrow> real \<Rightarrow> game_state \<Rightarrow> game_state" where
  "update_planes dt now s =
     (case planes_loop dt now (sw s) (sh s) (lanes s) (planes s) (bombs s) (smokes s) (rnd s) of
        (ps, bs, sm, g) \<Rightarrow> s\<lparr>planes := ps, bombs := bs, smokes := sm, rnd := g\<rparr>)"

subsection \<open>Bombs\<close>

text \<open>
  A falling bomb that reaches \<open>hit_y\<close> explodes and pulses the camera shake; an exploded bomb
  is kept while its explosion is younger than \<open>EXPLOSION_TIME\<close>. The pair threaded through
  the loop is \<open>(shake_until, shake_strength)\<close>.
\<close>

definition explosion_shake :: "real \<Rightarrow> real \<times> real \<Rightarrow> real \<times> real" where
  "explosion_shake now sk =
     (now + SHAKE_DURATION, min SHAKE_STRENGTH (snd sk + SHAKE_STRENGTH * 0.6))"

fun bombs_loop :: "real \<Rightarrow> real \<Rightarrow> Bomb list \<Rightarrow> real \<times> real \<Rightarrow> Bomb list \<times> (real \<times> real)" where
  "bombs_loop dt now [] sk = ([], sk)"
| "bombs_loop dt now (b # bs) sk =
     (if \<not> b_exploded b then
        (let b1 = b\<lparr>b_vy := b_vy b + GRAVITY * dt\<rparr>;
             b2 = b1\<lparr>b_y := b_y b1 + b_vy b1 * dt\<rparr>
         in if b_y b2 \<ge> b_hit_y b2
            then (case bombs_loop dt now bs (explosion_shake now sk) of (r, sk') \<Rightarrow>
                    (b2\<lparr>b_exploded := True, b_start := now\<rparr> # r, sk'))
            else (case bombs_loop dt now bs sk of (r, sk') \<Rightarrow> (b2 # r, sk')))
      else if now - b_start b < EXPLOSION_TIME
           then (case bombs_loop dt now bs sk of (r, sk') \<Rightarrow> (b # r, sk'))
           else bombs_loop dt now bs sk)"

definition update_bombs :: "real \<Rightarrow> real \<Rightarrow> game_state \<Rightarrow> game_state" where
  "update_bombs dt now s =
     (case bombs_loop dt now (bombs s) (shake_until s, shake_strength s) of
        (bs, su, ss) \<Rightarrow> s\<lparr>bombs := bs, shake_until := su, shake_strength := ss\<rparr>)"

subsection \<open>Anti-aircraft batteries and shots\<close>

text \<open>
  A battery that fires: burst altitude, drift, climb speed and muzzle jitter are drawn in
  this order, then the delay to the next shot from
  \<^verbatim>\<open>uniform(AA_SPAWN_RATE*0.8, AA_SPAWN_RATE*1.3)\<close>. The result is the shot and the new
  \<^verbatim>\<open>aa_next_fire[i]\<close>.
\<close>

definition fire_battery :: "real \<Rightarrow> int \<Rightarrow> int \<times> int \<Rightarrow> rng \<Rightarrow> AAShot \<times> real \<times> rng" where
  "fire_battery now h base g0 =
     (let top_alt = py_int (of_int h * AA_MIN_ALT_FRAC);
          bot_alt = py_int (of_int h * AA_MAX_ALT_FRAC)
      in case randint top_alt bot_alt g0 of (burst_y', g1) \<Rightarrow>
         case uniform (-100) 100 g1 of (vx, g2) \<Rightarrow>
         case uniform 0 120 g2 of (u, g3) \<Rightarrow>
         case uniform (-6) 6 g3 of (j, g4) \<Rightarrow>
         case uniform (AA_SPAWN_RATE * 0.8) (AA_SPAWN_RATE * 1.3) g4 of (d, g5) \<Rightarrow>
           (\<lparr>shot_x = of_int (fst base) + j, shot_y = of_int (snd base), shot_vx = vx,
             shot_vy = - 500 - u, shot_target_y = of_int burst_y', shot_alive = True\<rparr>,
            now + d, g5))"

text \<open>
  \<^verbatim>\<open>for i, base in enumerate(aa_bases)\<close>: battery \<open>i\<close> fires when its time has come and
  fewer than \<open>AA_MAX_SHOTS\<close> shots are in the list at that moment.
\<close>

definition battery_fires :: "real \<Rightarrow> real list \<Rightarrow> AAShot list \<Rightarrow> nat \<Rightarrow> bool" where
  "battery_fires now nf shots i \<longleftrightarrow> now \<ge> nf ! i \<and> length shots < AA_MAX_SHOTS"

fun aa_spawn_loop ::
  "real \<Rightarrow> int \<Rightarrow> (nat \<times> (int \<times> int)) list \<Rightarrow> real list \<Rightarrow> AAShot list \<Rightarrow> rng
     \<Rightarrow> real list \<times> AAShot list \<times> rng" where
  "aa_spawn_loop now h [] nf shots g = (nf, shots, g)"
| "aa_spawn_loop now h ((i, base) # rest) nf shots g =
     (if battery_fires now nf shots i
      then (case fire_battery now h base g of (shot, t, g') \<Rightarrow>
              aa_spawn_loop now h rest (nf[i := t]) (shots @ [shot]) g')
      else aa_spawn_loop now h rest nf shots g)"

definition spawn_shots :: "real \<Rightarrow> game_state \<Rightarrow> game_state" where
  "spawn_shots now s =
     (case aa_spawn_loop now (sh s) (enumerate 0 (aa_bases s)) (aa_next_fire s) (aa_shots s) (rnd s)
      of (nf, shots, g) \<Rightarrow> s\<lparr>aa_next_fire := nf, aa_shots := shots, rnd := g\<rparr>)"

text \<open>The smoke puffs of a burst at \<open>(bx, by)\<close>.\<close>

definition burst_puff :: "real \<Rightarrow> real \<Rightarrow> rng \<Rightarrow> Smoke \<times> rng" where
  "burst_puff bx by g0 =
     (case uniform (- AA_PUFF_SPREAD) AA_PUFF_SPREAD g0 of (ox, g1) \<Rightarrow>
      case uniform (- AA_PUFF_SPREAD * 0.6) (AA_PUFF_SPREAD * 0.6) g1 of (oy, g2) \<Rightarrow>
      case uniform (fst AA_PUFF_R0) (snd AA_PUFF_R0) g2 of (r, g3) \<Rightarrow>
      case uniform (fst AA_PUFF_VY) (snd AA_PUFF_VY) g3 of (vy, g4) \<Rightarrow>
      case uniform (fst AA_PUFF_ALPHA0) (snd AA_PUFF_ALPHA0) g4 of (a, g5) \<Rightarrow>
      case randint 45 75 g5 of (tone, g6) \<Rightarrow>
        (\<lparr>s_x = bx + ox, s_y = by + oy, s_r = r, s_vy = vy, s_a = a, s_tone = tone\<rparr>, g6))"

fun burst_puffs :: "nat \<Rightarrow> real \<Rightarrow> real \<Rightarrow> Smoke list \<Rightarrow> rng \<Rightarrow> Smoke list \<times> rng" where
  "burst_puffs 0 bx by sm g = (sm, g)"
| "burst_puffs (Suc n) bx by sm g =
     (case burst_puff bx by g of (k, g') \<Rightarrow> burst_puffs n bx by (sm @ [k]) g')"

text \<open>
  The shot loop starts from \<^verbatim>\<open>new_shots=[]; aa_bursts=[]\<close>: the burst list of an iteration
  holds the bursts of that iteration only. A shot that reaches its target altitude, or rises
  above \<open>y = 20\<close>, becomes a burst with \<open>start = now\<close> and radius 48 and is dropped; a shot
  that is not alive is dropped as well.
\<close>

fun shots_loop ::
  "real \<Rightarrow> real \<Rightarrow> AAShot list \<Rightarrow> Smoke list \<Rightarrow> rng
     \<Rightarrow> AAShot list \<times> AABurst list \<times> Smoke list \<times> rng" where
  "shots_loop dt now [] sm g = ([], [], sm, g)"
| "shots_loop dt now (s # ss) sm g =
     (if shot_alive s then
        (let s1 = s\<lparr>shot_x := shot_x s + shot_vx s * dt, shot_y := shot_y s + shot_vy s * dt\<rparr>
         in if shot_y s1 \<le> shot_target_y s1 \<or> shot_y s1 < 20 then
              (case randint (fst AA_SMOKE_PUFFS) (snd AA_SMOKE_PUFFS) g of (n, g1) \<Rightarrow>
               case burst_puffs (nat n) (shot_x s1) (shot_y s1) sm g1 of (sm1, g2) \<Rightarrow>
               case shots_loop dt now ss sm1 g2 of (new_shots, bursts, sm2, g3) \<Rightarrow>
                 (new_shots,
                  \<lparr>burst_x = shot_x s1, burst_y = shot_y s1, burst_start = now,
                    burst_radius = 48\<rparr> # bursts,
                  sm2, g3))
            else (case shots_loop dt now ss sm g of (new_shots, bursts, sm2, g3) \<Rightarrow>
                    (s1 # new_shots, bursts, sm2, g3)))
      else shots_loop dt now ss sm g)"

definition update_shots :: "real \<Rightarrow> real \<Rightarrow> game_state \<Rightarrow> game_state" where
  "update_shots dt now s =
     (case shots_loop dt now (aa_shots s) (smokes s) (rnd s) of
        (new_shots, bursts, sm, g) \<Rightarrow>
          s\<lparr>aa_shots := take AA_MAX_SHOTS new_shots, aa_bursts := bursts, smokes := sm,
            rnd := g\<rparr>)"

subsection \<open>Bursts against planes\<close>

definition hit_window :: real where "hit_window = 0.18"

text \<open>A plane can be hit when it is not dying and its invulnerability has run out.\<close>

definition eligible :: "real \<Rightarrow> Plane \<Rightarrow> bool" where
  "eligible now p \<longleftrightarrow> \<not> (p_dying p \<or> now < p_invuln_until p)"

definition in_radius :: "AABurst \<Rightarrow> Plane \<Rightarrow> bool" where
  "in_radius b p \<longleftrightarrow>
     (let cx = p_x p + get_width (p_img p) / 2;
          cy = p_y p + get_height (p_img p) / 2
      in (cx - burst_x b) * (cx - burst_x b) + (cy - burst_y b) * (cy - burst_y b)
           \<le> burst_radius b * burst_radius b)"

text \<open>What the source does to a plane that is hit (the spec's \<open>killEntity\<close>).\<close>

definition kill_plane :: "real \<Rightarrow> real \<Rightarrow> Plane \<Rightarrow> Plane" where
  "kill_plane now spin p =
     p\<lparr>p_on_fire := True, p_dying := True, p_vy := - 60, p_spin := spin,
       p_vx := p_vx p * 0.65, p_invuln_until := now + 2\<rparr>"

text \<open>
  The inner loop of one burst: the first plane that is eligible and in the radius is killed,
  the expiry of the shake is pushed to at least \<open>now + 0.22\<close>, and the loop breaks.
\<close>

fun burst_hit ::
  "real \<Rightarrow> AABurst \<Rightarrow> Plane list \<Rightarrow> real \<Rightarrow> rng \<Rightarrow> Plane list \<times> real \<times> rng" where
  "burst_hit now b [] su g = ([], su, g)"
| "burst_hit now b (p # ps) su g =
     (if eligible now p \<and> in_radius b p
      then (case uniform (-2.5) 2.5 g of (spin, g') \<Rightarrow>
              (kill_plane now spin p # ps, max su (now + 0.22), g'))
      else (case burst_hit now b ps su g of (ps', su', g') \<Rightarrow> (p # ps', su', g')))"

fun collide_loop ::
  "real \<Rightarrow> AABurst list \<Rightarrow> Plane list \<Rightarrow> real \<Rightarrow> rng \<Rightarrow> Plane list \<times> real \<times> rng" where
  "collide_loop now [] ps su g = (ps, su, g)"
| "collide_loop now (b # bs) ps su g =
     (if now - burst_start b > hit_window then collide_loop now bs ps su g
      else (case burst_hit now b ps su g of (ps', su', g') \<Rightarrow> collide_loop now bs ps' su' g'))"

definition collide :: "real \<Rightarrow> game_state \<Rightarrow> game_state" where
  "collide now s =
     (case collide_loop now (aa_bursts s) (planes s) (shake_until s) (rnd s) of
        (ps, su, g) \<Rightarrow> s\<lparr>planes := ps, shake_until := su, rnd := g\<rparr>)"

subsection \<open>Smoke\<close>

text \<open>
  Every particle rises, grows and fades by amounts drawn per particle, and is kept while its
  alpha is above 6. Then \<^verbatim>\<open>smokes = new_smoke[-MAX_SMOKE:]\<close>: the last \<open>MAX_SMOKE\<close>
  survivors, in order.
\<close>

definition smoke_step :: "real \<Rightarrow> Smoke \<Rightarrow> rng \<Rightarrow> Smoke \<times> rng" where
  "smoke_step dt k g0 =
     (case uniform (fst AA_PUFF_DR) (snd AA_PUFF_DR) g0 of (dr, g1) \<Rightarrow>
      case uniform (fst AA_PUFF_DA) (snd AA_PUFF_DA) g1 of (da, g2) \<Rightarrow>
        (k\<lparr>s_y := s_y k + s_vy k * dt, s_r := s_r k + dr * dt, s_a := s_a k - da * dt\<rparr>, g2))"

fun smoke_loop :: "real \<Rightarrow> Smoke list \<Rightarrow> rng \<Rightarrow> Smoke list \<times> rng" where
  "smoke_loop dt [] g = ([], g)"
| "smoke_loop dt (k # ks) g =
     (case smoke_step dt k g of (k', g1) \<Rightarrow>
      case smoke_loop dt ks g1 of (r, g2) \<Rightarrow>
        (if s_a k' > 6 then k' # r else r, g2))"

text \<open>\<^verbatim>\<open>xs[-n:]\<close> for a positive \<open>n\<close>.\<close>

definition last_n :: "nat \<Rightarrow> 'a list \<Rightarrow> 'a list" where
  "last_n n xs = drop (length xs - n) xs"

definition update_smoke :: "real \<Rightarrow> game_state \<Rightarrow> game_state" where
  "update_smoke dt s =
     (case smoke_loop dt (smokes s) (rnd s) of
        (new_smoke, g) \<Rightarrow> s\<lparr>smokes := last_n MAX_SMOKE new_smoke, rnd := g\<rparr>)"

subsection \<open>Camera shake\<close>

text \<open>
  While \<open>now < shake_until\<close> the magnitude is the strength times the remaining fraction of
  \<open>SHAKE_DURATION\<close>, and the frame is drawn at a random offset within it.
\<close>

definition shake_mag :: "real \<Rightarrow> game_state \<Rightarrow> real" where
  "shake_mag now s =
     (if now < shake_until s then shake_strength s * ((shake_until s - now) / SHAKE_DURATION)
      else 0)"

definition update_shake :: "real \<Rightarrow> game_state \<Rightarrow> game_state" where
  "update_shake now s =
     (if now < shake_until s then
        (let mag = shake_strength s * ((shake_until s - now) / SHAKE_DURATION)
         in case uniform (- mag) mag (rnd s) of (ox, g1) \<Rightarrow>
            case uniform (- mag) mag g1 of (oy, g2) \<Rightarrow>
              s\<lparr>shake_offset := (py_int ox, py_int oy), rnd := g2\<rparr>)
      else s\<lparr>shake_offset := (0, 0)\<rparr>)"

subsection \<open>The logo: slide, then bake\<close>

text \<open>The start of the slide, before the planes move.\<close>

definition trigger_logo :: "real \<Rightarrow> game_state \<Rightarrow> game_state" where
  "trigger_logo now s =
     (if \<not> logo_active s \<and> \<not> logo_parked s \<and> now \<ge> logo_show_time s
      then s\<lparr>logo_active := True, logo_anim_start := Some now\<rparr>
      else s)"

text \<open>The picture the frame starts from: the baked backdrop when there is one.\<close>

definition frame_backdrop :: "game_state \<Rightarrow> surface" where
  "frame_backdrop s =
     (case bg_with_logo s of
        Some c \<Rightarrow> if using_baked_logo s then c else bg s
      | None \<Rightarrow> bg s)"

text \<open>The branch of the logo block that composes the card onto a copy of the backdrop.\<close>

definition bakes :: "real \<Rightarrow> game_state \<Rightarrow> bool" where
  "bakes now s \<longleftrightarrow>
     \<not> logo_parked s \<and> now \<ge> logo_show_time s \<and>
     (case (if \<not> logo_active s then Some now else logo_anim_start s) of
        Some a \<Rightarrow> (now - a) / logo_slide_dur s \<ge> 1
      | None \<Rightarrow> False)"

text \<open>
  The logo block after the drawing. \<open>logo_anim_start\<close> is a local variable that is assigned
  whenever \<open>logo_active\<close> becomes true, so it is bound when it is read; where it were not,
  Python would stop with UnboundLocalError, and the model leaves the state as it is.
\<close>

definition slide_logo :: "real \<Rightarrow> game_state \<Rightarrow> game_state" where
  "slide_logo now s =
     (if \<not> logo_parked s \<and> now \<ge> logo_show_time s then
        (let s1 = (if \<not> logo_active s then s\<lparr>logo_active := True, logo_anim_start := Some now\<rparr>
                   else s)
         in case logo_anim_start s1 of
              None \<Rightarrow> s1
            | Some a \<Rightarrow>
               (let t = (now - a) / logo_slide_dur s1 in
                if t \<ge> 1 then
                  (let r = set_center (sw s1 div 2, logo_center_y s1) (logo_rect s1)
                   in s1\<lparr>logo_rect := r, logo_parked := True, logo_active := False,
                         bg_with_logo := Some (Blit (bg s1) (logo_card s1) (topleft r)),
                         using_baked_logo := True\<rparr>)
                else
                  (let ease = 1 - (1 - t) ^ 3;
                       cur_y = py_int (of_int (logo_start_y s1)
                                 + of_int (logo_center_y s1 - logo_start_y s1) * ease)
                   in s1\<lparr>logo_rect := set_center (sw s1 div 2, cur_y) (logo_rect s1)\<rparr>)))
      else s)"

text \<open>Whether the card is blitted on its own in this frame.\<close>

definition blits_logo_card :: "real \<Rightarrow> game_state \<Rightarrow> bool" where
  "blits_logo_card now s \<longleftrightarrow> \<not> using_baked_logo s \<and> now \<ge> logo_show_time s"

subsection \<open>Events\<close>

definition make_aa_bases :: "int \<Rightarrow> int \<Rightarrow> (int \<times> int) list" where
  "make_aa_bases w cby =
     (if AA_BATTERIES > 0
      then (let step = w div (AA_BATTERIES + 1) in map (\<lambda>i. (i * step, cby + 2)) [1..AA_BATTERIES])
      else [])"

definition make_lanes :: "int \<Rightarrow> real list" where
  "make_lanes h = [of_int h * 0.2, of_int h * 0.28, of_int h * 0.36]"

text \<open>\<^verbatim>\<open>[now + random.uniform(0.4, 1.1) for _ in aa_bases]\<close>\<close>

fun rearm_all :: "real \<Rightarrow> 'a list \<Rightarrow> rng \<Rightarrow> real list \<times> rng" where
  "rearm_all now [] g = ([], g)"
| "rearm_all now (b # bs) g =
     (case uniform 0.4 1.1 g of (u, g1) \<Rightarrow>
      case rearm_all now bs g1 of (r, g2) \<Rightarrow> ((now + u) # r, g2))"

definition skip_draws :: "nat \<Rightarrow> rng \<Rightarrow> rng" where
  "skip_draws k g = g\<lparr>pos := pos g + k\<rparr>"

text \<open>
  \<^verbatim>\<open>VIDEORESIZE\<close>: the scenery, the lanes and the batteries are rebuilt for the new size and
  every battery is re-armed; the flag takes one value (\<open>sway_seed\<close>); the logo card is rebuilt
  and put at the centre when parked, at its off-screen start otherwise; the baked backdrop is
  dropped. Planes, bombs, shots, smoke, \<open>logo_show_time\<close>, \<open>logo_anim_start\<close>,
  \<open>logo_active\<close> and \<open>logo_parked\<close> are not touched.
\<close>

definition resize :: "real \<Rightarrow> int \<Rightarrow> int \<Rightarrow> nat \<Rightarrow> game_state \<Rightarrow> game_state" where
  "resize now w h k s =
     (let cby = y_base h;
          bases = make_aa_bases w cby
      in case rearm_all now bases (skip_draws k (rnd s)) of (nf, g1) \<Rightarrow>
         case uniform 0 1000 g1 of (sway_seed, g2) \<Rightarrow>
         case build_logo_card w h of (lcard, rect) \<Rightarrow>
           (let center_y = h div 2;
                start_y = h + r_height rect div 2 + 20
            in s\<lparr>sw := w, sh := h, bg := Backdrop w h, city_base_y := cby,
                 lanes := make_lanes h, aa_bases := bases, aa_next_fire := nf,
                 logo_card := lcard,
                 logo_rect := (if logo_parked s then set_center (w div 2, center_y) rect
                               else set_center (w div 2, start_y) rect),
                 logo_center_y := center_y, logo_start_y := start_y,
                 bg_with_logo := None, using_baked_logo := False, rnd := g2\<rparr>))"

definition handle_event :: "real \<Rightarrow> game_state \<Rightarrow> event \<Rightarrow> game_state" where
  "handle_event now s e =
     (case e of
        QUIT \<Rightarrow> s\<lparr>running := False\<rparr>
      | KEYDOWN k \<Rightarrow>
          (if k = K_ESCAPE \<or> k = K_q then s\<lparr>running := False\<rparr>
           else if k = K_f then s\<lparr>show_fps := \<not> show_fps s\<rparr>
           else s)
      | VIDEORESIZE w h k \<Rightarrow> resize now w h k s
      | OTHER_EVENT \<Rightarrow> s)"

definition handle_events :: "real \<Rightarrow> event list \<Rightarrow> game_state \<Rightarrow> game_state" where
  "handle_events now es s = foldl (handle_event now) s es"

subsection \<open>The body of \<^verbatim>\<open>while running\<close>\<close>

text \<open>The iteration up to the conversion of shots into bursts.\<close>

definition before_collide :: "tick_input \<Rightarrow> game_state \<Rightarrow> game_state" where
  "before_collide inp s =
     (let dt = in_dt inp; now = in_now inp;
          s1 = handle_events now (in_events inp) s;
          s2 = trigger_logo now s1;
          s3 = update_planes dt now s2;
          s4 = update_bombs dt now s3;
          s5 = spawn_shots now s4
      in update_shots dt now s5)"

definition tick :: "tick_input \<Rightarrow> game_state \<Rightarrow> game_state" where
  "tick inp s =
     (let dt = in_dt inp; now = in_now inp;
          s7 = collide now (before_collide inp s);
          s8 = update_smoke dt s7;
          s9 = update_shake now s8
      in slide_logo now s9)"

text \<open>
  The loop: the condition is tested before each iteration, so the iteration that reads
  \<^verbatim>\<open>QUIT\<close> still runs to its end.
\<close>

fun run :: "game_state \<Rightarrow> tick_input list \<Rightarrow> game_state" where
  "run s [] = s"
| "run s (inp # inps) = (if running s then run (tick inp s) inps else s)"

section \<open>Start-up\<close>










section \<open>Predicates used by the properties\<close>





text \<open>
  The overlay: what the logo code reads and writes (\<open>logo_view\<close>), the baked state, the
  iteration up to the logo block, and the number of iterations of a run that compose the card
  onto the backdrop.
\<close>

definition logo_view ::
  "game_state \<Rightarrow> surface \<times> surface option \<times> bool \<times> surface \<times> Rect \<times>
     (int \<times> int \<times> real \<times> real) \<times> (real option \<times> bool \<times> bool \<times> int \<times> int)" where
  "logo_view s = (bg s, bg_with_logo s, using_baked_logo s, logo_card s, logo_rect s,
     (logo_center_y s, logo_start_y s, logo_show_time s, logo_slide_dur s),
     (logo_anim_start s, logo_active s, logo_parked s, sw s, sh s))"

definition is_resize :: "event \<Rightarrow> bool" where
  "is_resize e = (case e of VIDEORESIZE w h k \<Rightarrow> True | _ \<Rightarrow> False)"

definition no_resize :: "tick_input \<Rightarrow> bool" where
  "no_resize inp \<longleftrightarrow> list_all (\<lambda>e. \<not> is_resize e) (in_events inp)"

definition baked :: "game_state \<Rightarrow> bool" where
  "baked s \<longleftrightarrow> logo_parked s \<and> using_baked_logo s \<and> bg_with_logo s \<noteq> None"

definition before_logo :: "tick_input \<Rightarrow> game_state \<Rightarrow> game_state" where
  "before_logo inp s =
     update_shake (in_now inp) (update_smoke (in_dt inp)
       (collide (in_now inp) (before_collide inp s)))"

fun bake_count :: "game_state \<Rightarrow> tick_input list \<Rightarrow> nat" where
  "bake_count s [] = 0"
| "bake_count s (inp # inps) =
     (if running s
      then (if bakes (in_now inp) (before_logo inp s) then 1 else 0) + bake_count (tick inp s) inps
      else 0)"



definition demo_rng :: rng where
  "demo_rng = \<lparr>src = (\<lambda>_. 1 / 2), pos = 0\<rparr>"



text \<open>
  A state of the loop for the examples, on the 1280 by 720 canvas a little before the logo
  is due: nine planes on the three lanes, two shots in flight, battery 2 due.
\<close>

definition mk_plane :: "real \<Rightarrow> real \<Rightarrow> real \<Rightarrow> Plane" where
  "mk_plane px py pvx =
     \<lparr>p_img = (120, 40), p_x = px, p_y = py, p_vx = pvx, p_next_bomb = 203 / 2,
      p_original_facing = ''left'', p_vy = 0, p_angle = 0, p_spin = 0, p_on_fire = False,
      p_dying = False, p_invuln_until = 0\<rparr>"

definition demo_state :: game_state where
  "demo_state =
     \<lparr>sw = 1280, sh = 720, bg = Backdrop 1280 720, city_base_y = 504,
      bg_with_logo = None, using_baked_logo = False,
      lanes = [144, 1008 / 5, 1296 / 5],
      planes = [mk_plane 100 144 100, mk_plane 590 (1296 / 5) (- 100), mk_plane 900 144 90,
                mk_plane 640 (1296 / 5) (- 100), mk_plane (- 200) (1008 / 5) 110,
                mk_plane 1100 (1008 / 5) (- 95), mk_plane 400 144 80,
                mk_plane 1300 144 (- 120), mk_plane (- 150) (1008 / 5) 85],
      bombs = [], smokes = [],
      aa_bases = [(320, 506), (640, 506), (960, 506)],
      aa_next_fire = [1009 / 10, 1008 / 10, 1999 / 20],
      aa_shots =
        [\<lparr>shot_x = 640, shot_y = 340, shot_vx = 0, shot_vy = - 500, shot_target_y = 300,
          shot_alive = True\<rparr>,
         \<lparr>shot_x = 310, shot_y = 219, shot_vx = 0, shot_vy = - 600, shot_target_y = 158,
          shot_alive = True\<rparr>],
      aa_bursts = [],
      logo_card = LogoCard 1280 720,
      logo_rect = \<lparr>r_left = 230, r_top = 740, r_width = 820, r_height = 201\<rparr>,
      logo_center_y = 360, logo_start_y = 840, logo_show_time = 110, logo_slide_dur = 7 / 5,
      logo_anim_start = None, logo_active = False, logo_parked = False,
      shake_until = 0, shake_strength = 0, shake_offset = (0, 0),
      show_fps = False, running = True, rnd = demo_rng\<rparr>"

text \<open>The same scene with the logo parked and baked.\<close>

definition demo_baked :: game_state where
  "demo_baked =
     demo_state\<lparr>logo_rect := \<lparr>r_left = 230, r_top = 260, r_width = 820, r_height = 201\<rparr>,
       logo_show_time := 80, logo_anim_start := Some 80, logo_parked := True,
       bg_with_logo := Some (Blit (Backdrop 1280 720) (LogoCard 1280 720) (230, 260)),
       using_baked_logo := True\<rparr>"

text \<open>Inputs: an iteration at 10 frames per second, and the next one with and without a resize.\<close>

definition tick1 :: tick_input where
  "tick1 = \<lparr>in_dt = 1 / 10, in_now = 100, in_events = []\<rparr>"

definition tick2 :: tick_input where
  "tick2 = \<lparr>in_dt = 1 / 10, in_now = 1001 / 10, in_events = []\<rparr>"


section \<open>Properties\<close>

subsection \<open>Planes and bombs through one iteration\<close>























lemma trigger_logo_keeps [simp]:
  "planes (trigger_logo now s) = planes s" "bombs (trigger_logo now s) = bombs s"
  by (simp_all add: trigger_logo_def)

lemma update_bombs_planes [simp]: "planes (update_bombs dt now s) = planes s"
  by (simp add: update_bombs_def split: prod.splits)

lemma spawn_shots_keeps [simp]:
  "planes (spawn_shots now s) = planes s" "bombs (spawn_shots now s) = bombs s"
  by (simp_all add: spawn_shots_def split: prod.splits)

lemma update_shots_keeps [simp]:
  "planes (update_shots dt now s) = planes s" "bombs (update_shots dt now s) = bombs s"
  by (simp_all add: update_shots_def split: prod.splits)

lemma collide_bombs [simp]: "bombs (collide now s) = bombs s"
  by (simp add: collide_def split: prod.splits)

lemma update_smoke_keeps [simp]:
  "planes (update_smoke dt s) = planes s" "bombs (update_smoke dt s) = bombs s"
  by (simp_all add: update_smoke_def split: prod.splits)

lemma update_shake_keeps [simp]:
  "planes (update_shake now s) = planes s" "bombs (update_shake now s) = bombs s"
  by (simp_all add: update_shake_def Let_def split: prod.splits)

lemma slide_logo_keeps [simp]:
  "planes (slide_logo now s) = planes s" "bombs (slide_logo now s) = bombs s"
  by (simp_all add: slide_logo_def Let_def split: option.splits)



















subsection \<open>Horizontal speed\<close>




subsection \<open>The overlay once baked\<close>

lemma tick_before_logo: "tick inp s = slide_logo (in_now inp) (before_logo inp s)"
  by (simp add: tick_def before_logo_def Let_def)

lemma phases_logo_view [simp]:
  "logo_view (update_planes dt now s) = logo_view s"
  "logo_view (update_bombs dt now s) = logo_view s"
  "logo_view (spawn_shots now s) = logo_view s"
  "logo_view (update_shots dt now s) = logo_view s"
  "logo_view (collide now s) = logo_view s"
  "logo_view (update_smoke dt s) = logo_view s"
  "logo_view (update_shake now s) = logo_view s"
  by (simp_all add: logo_view_def update_planes_def update_bombs_def spawn_shots_def
        update_shots_def collide_def update_smoke_def update_shake_def Let_def split: prod.splits)

lemma handle_event_no_resize: "\<not> is_resize e \<Longrightarrow> logo_view (handle_event now s e) = logo_view s"
  by (cases e) (simp_all add: handle_event_def is_resize_def logo_view_def)

lemma handle_events_no_resize:
  "list_all (\<lambda>e. \<not> is_resize e) es \<Longrightarrow> logo_view (handle_events now es s) = logo_view s"
  unfolding handle_events_def
  by (induction es arbitrary: s) (simp_all add: handle_event_no_resize)

lemma trigger_logo_parked: "logo_parked s \<Longrightarrow> trigger_logo now s = s"
  by (simp add: trigger_logo_def)

lemma slide_logo_parked: "logo_parked s \<Longrightarrow> slide_logo now s = s"
  by (simp add: slide_logo_def)

lemma logo_view_parked: "logo_view s' = logo_view s \<Longrightarrow> logo_parked s' = logo_parked s"
  by (simp add: logo_view_def)

lemma before_logo_view:
  assumes "logo_parked s" "no_resize inp"
  shows "logo_view (before_logo inp s) = logo_view s"
proof -
  let ?s1 = "handle_events (in_now inp) (in_events inp) s"
  have v1: "logo_view ?s1 = logo_view s"
    using assms(2) by (simp add: no_resize_def handle_events_no_resize)
  then have "logo_parked ?s1" using assms(1) by (simp add: logo_view_def)
  then have "trigger_logo (in_now inp) ?s1 = ?s1" by (rule trigger_logo_parked)
  with v1 show ?thesis by (simp add: before_logo_def before_collide_def Let_def)
qed

lemma tick_baked:
  assumes "baked s" "no_resize inp"
  shows "logo_view (tick inp s) = logo_view s \<and> \<not> bakes (in_now inp) (before_logo inp s)"
proof -
  from assms have v: "logo_view (before_logo inp s) = logo_view s"
    by (simp add: baked_def before_logo_view)
  with assms(1) have p: "logo_parked (before_logo inp s)" by (simp add: logo_view_def baked_def)
  then have "slide_logo (in_now inp) (before_logo inp s) = before_logo inp s"
    by (rule slide_logo_parked)
  with v p show ?thesis by (simp add: tick_before_logo bakes_def)
qed

lemma baked_view: "logo_view s' = logo_view s \<Longrightarrow> baked s' = baked s"
  by (simp add: logo_view_def baked_def)

lemma run_baked:
  assumes "baked s" "list_all no_resize inps"
  shows "logo_view (run s inps) = logo_view s \<and> bake_count s inps = 0"
  using assms
proof (induction inps arbitrary: s)
  case Nil then show ?case by simp
next
  case (Cons inp inps)
  show ?case
  proof (cases "running s")
    case True
    from Cons.prems(2) have n: "no_resize inp" and r: "list_all no_resize inps" by simp_all
    from tick_baked[OF Cons.prems(1) n] have v: "logo_view (tick inp s) = logo_view s"
      and b: "\<not> bakes (in_now inp) (before_logo inp s)" by blast+
    from baked_view[OF v] Cons.prems(1) have "baked (tick inp s)" by blast
    from Cons.IH[OF this r] have ih1: "logo_view (run (tick inp s) inps) = logo_view (tick inp s)"
      and ih2: "bake_count (tick inp s) inps = 0" by blast+
    have r1: "run s (inp # inps) = run (tick inp s) inps" using True by simp
    have r2: "bake_count s (inp # inps) = bake_count (tick inp s) inps" using True b by simp
    show ?thesis unfolding r1 r2 using ih1 ih2 v by (simp only:)
  next
    case False
    then show ?thesis by simp
  qed
qed

lemma bakes_then_baked: "bakes now s \<Longrightarrow> baked (slide_logo now s) \<and>
    bg_with_logo (slide_logo now s) =
      Some (Blit (bg s) (logo_card s) (topleft (set_center (sw s div 2, logo_center_y s) (logo_rect s))))"
  by (auto simp: bakes_def slide_logo_def baked_def Let_def split: option.splits if_splits)

lemma no_bake_keeps: "\<not> bakes now s \<Longrightarrow> bg_with_logo (slide_logo now s) = bg_with_logo s \<and> using_baked_logo (slide_logo now s) = using_baked_logo s"
  by (auto simp: bakes_def slide_logo_def Let_def split: option.splits if_splits)

subsection \<open>The claims\<close>







text \<open>
  C8. From a baked state (logo parked, cached backdrop in use), any run of iterations without
  a resize event stays baked with the same cached backdrop, which is the picture every frame
  starts from; the rectangle of the logo does not move; and no iteration of the run composes
  the card onto the backdrop again.
\<close>

theorem baked_is_stable:
  assumes "baked s" and "list_all no_resize inps"
  shows "baked (run s inps) \<and>
         bg_with_logo (run s inps) = bg_with_logo s \<and>
         frame_backdrop (run s inps) = frame_backdrop s \<and>
         (\<exists>c. bg_with_logo s = Some c \<and> frame_backdrop s = c) \<and>
         logo_rect (run s inps) = logo_rect s \<and>
         bake_count s inps = 0"
proof -
  from run_baked[OF assms] have v: "logo_view (run s inps) = logo_view s"
    and c: "bake_count s inps = 0" by simp_all
  from baked_view[OF v] assms(1) have "baked (run s inps)" by blast
  moreover from v have e: "bg (run s inps) = bg s" "bg_with_logo (run s inps) = bg_with_logo s"
    "using_baked_logo (run s inps) = using_baked_logo s" "logo_rect (run s inps) = logo_rect s"
    by (simp_all add: logo_view_def)
  moreover have "frame_backdrop (run s inps) = frame_backdrop s"
    by (simp add: frame_backdrop_def e split: option.splits)
  moreover from assms(1) have "\<exists>c. bg_with_logo s = Some c \<and> frame_backdrop s = c"
    by (auto simp: baked_def frame_backdrop_def)
  ultimately show ?thesis using c by simp
qed

theorem baked_is_stable_witness:
  "baked demo_baked \<and> list_all no_resize [tick1, tick2] \<and>
   baked (run demo_baked [tick1, tick2]) \<and>
   bg_with_logo (run demo_baked [tick1, tick2]) = bg_with_logo demo_baked \<and>
   frame_backdrop (run demo_baked [tick1, tick2]) = frame_backdrop demo_baked \<and>
   (\<exists>c. bg_with_logo demo_baked = Some c \<and> frame_backdrop demo_baked = c) \<and>
   logo_rect (run demo_baked [tick1, tick2]) = logo_rect demo_baked \<and>
   bake_count demo_baked [tick1, tick2] = 0"
proof -
  have h1: "baked demo_baked" by (simp add: baked_def demo_baked_def)
  have h2: "list_all no_resize [tick1, tick2]"
    by (simp add: no_resize_def tick1_def tick2_def is_resize_def)
  from baked_is_stable [OF h1 h2] h1 h2 show ?thesis by blast
qed

end
